theory Spec2Isabelle
  imports Main "HOL-Library.Word" "HOL-Library.Sublist"
begin

section \<open>The decompiler server of Fission\<close>

text \<open>
  The development embeds the gRPC service \<open>DecompilerServiceImpl\<close> of the complete
  server (the revision with \<open>ServerArchitecture\<close>, \<open>ServerAssemblyEmit\<close> and
  \<open>MAX_INSTRS = 200\<close>): its memory image \<open>MemoryLoadImage\<close> and its handlers
  \<open>LoadBinary\<close>, \<open>DecompileFunction\<close>, \<open>DisassembleRange\<close> and \<open>Ping\<close>; and the
  memory image \<open>BufferLoadImage\<close> of the C wrapper.

  \<open>ghidra_decompiler/server_main.cc\<close> is an earlier draft of the same service. Its
  \<open>MemoryLoadImage\<close>, \<open>DisassembleRange\<close> and \<open>Ping\<close> are the same. Its \<open>LoadBinary\<close>
  has one \<open>catch\<close> clause, for \<open>std::exception\<close>. Its sweep is bounded by
  \<open>limit = 100\<close>, gives the block the identifier 0, stops at a mnemonic equal to \<open>RET\<close> or
  \<open>JMP\<close>, and takes the instruction length from \<open>emit.len\<close>, a field that nothing
  assigns.
\<close>

section \<open>Machine types\<close>

text \<open>
  The service is C++: addresses and the base address are \<open>uint64_t\<close>, image bytes are
  \<open>uint1\<close>, instruction lengths and read sizes are the decompiler library's \<open>int4\<close>
  (a signed 32-bit integer, read here with \<open>sint\<close>). Unsigned arithmetic wraps around,
  as \<open>+\<close> and \<open>-\<close> on words do.
\<close>

type_synonym uint64 = "64 word"
type_synonym uint32 = "32 word"
type_synonym uint1 = "8 word"
type_synonym int4 = "32 word"

section \<open>The memory images\<close>

text \<open>
  \<open>class MemoryLoadImage\<close> of the gRPC server keeps a copy of the binary
  (\<open>std::string data_\<close>) and its base address. \<open>loadFill(ptr, size, addr)\<close> writes
  \<open>size\<close> bytes to \<open>ptr\<close>; the model returns the bytes written. The loop variable
  \<open>i\<close> is an \<open>int4\<close> running from 0, so a size that is not positive writes nothing.
  \<open>data_.size()\<close> is a \<open>size_t\<close>, taken as 64 bits wide.
\<close>

record MemoryLoadImage =
  data :: "uint1 list"
  base_addr :: uint64

definition loadFill :: "MemoryLoadImage \<Rightarrow> int4 \<Rightarrow> uint64 \<Rightarrow> uint1 list" where
  "loadFill img sz offset =
     (let max = base_addr img + of_nat (length (data img)) in
      map (\<lambda>i. let cur = offset + of_nat i in
                if base_addr img \<le> cur \<and> cur < max
                then data img ! unat (cur - base_addr img)
                else 0)
          [0 ..< nat (sint sz)])"

text \<open>
  \<open>class BufferLoadImage\<close> of the C wrapper reads from a caller's buffer
  (\<open>m_buffer\<close>, \<open>m_buffer_size\<close>). Its \<open>loadFill\<close> returns early, with the whole
  output zeroed by \<open>memset\<close>, when the read starts below the base address. (A negative
  \<open>size\<close> there is undefined behaviour of \<open>memset\<close>; the properties below read with
  positive sizes.)
\<close>

record BufferLoadImage =
  m_buffer :: "uint1 list"
  m_base_addr :: uint64

definition m_buffer_size :: "BufferLoadImage \<Rightarrow> uint64" where
  "m_buffer_size b = of_nat (length (m_buffer b))"

definition BufferLoadImage_loadFill :: "BufferLoadImage \<Rightarrow> int4 \<Rightarrow> uint64 \<Rightarrow> uint1 list" where
  "BufferLoadImage_loadFill b sz offset =
     (if offset < m_base_addr b then replicate (nat (sint sz)) 0
      else
        let rel_offset = offset - m_base_addr b in
        map (\<lambda>i. if rel_offset + of_nat i < m_buffer_size b
                  then m_buffer b ! unat (rel_offset + of_nat i)
                  else 0)
            [0 ..< nat (sint sz)])"


section \<open>The service: messages\<close>

text \<open>
  Modelled from the spec: the request and response messages. They are generated from
  \<open>protos/ghidra_service.proto\<close>, which is not among the sources; the fields are those
  the handlers set and the interface table of the specification lists.
  A response starts out with every field at its protobuf default (false, the empty string,
  the empty list); the handlers then set fields one by one. Every response has the flag
  \<open>success\<close> and the text \<open>error_message\<close>; the responses of \<open>DecompileFunction\<close> and
  \<open>DisassembleRange\<close> extend that record.
\<close>

record Instruction =
  address :: uint64
  ilength :: uint32
  mnemonic :: string
  operands :: string
  raw_bytes :: "uint1 list"

record BasicBlock =
  block_id :: uint64
  start_addr :: uint64
  end_addr :: uint64
  instructions :: "Instruction list"

record Response =
  success :: bool
  error_message :: string

type_synonym LoadBinaryResponse = Response

record DecompileResponse = Response +
  signature :: string
  c_code :: string
  blocks :: "BasicBlock list"

record DisassembleResponse = Response +
  dis_instructions :: "Instruction list"

record PingResponse =
  alive :: bool

record LoadBinaryRequest =
  binary_content :: "uint1 list"
  req_base_address :: uint64
  arch_spec :: string
  sla_path :: string

definition empty_LoadBinaryResponse :: LoadBinaryResponse where
  "empty_LoadBinaryResponse = \<lparr>success = False, error_message = []\<rparr>"

definition empty_DecompileResponse :: DecompileResponse where
  "empty_DecompileResponse =
     \<lparr>success = False, error_message = [], signature = [], c_code = [], blocks = []\<rparr>"

definition empty_DisassembleResponse :: DisassembleResponse where
  "empty_DisassembleResponse = \<lparr>success = False, error_message = [], dis_instructions = []\<rparr>"

section \<open>The decompiler engine as an oracle\<close>

text \<open>
  The decompiler library is not part of the service. What the handlers see of it:
  \<^item> a call can throw: a \<open>LowlevelError\<close> with its \<open>explain\<close> text, a
    \<open>std::exception\<close> with its \<open>what()\<close> text, or anything else;
  \<^item> \<open>arch->translate->printAssembly(emit, cur)\<close> returns the \<open>int4\<close> length of the
    instruction at \<open>cur\<close> and hands the mnemonic and the operand text to \<open>emit.dump\<close>;
  \<^item> the analysis of a function (\<open>findFunction\<close>, \<open>addFunction\<close>, \<open>clearAnalysis\<close>,
    \<open>reset\<close>, \<open>perform\<close>, \<open>docFunction\<close>) yields no function record, or throws, or
    yields the function's name and its C text;
  \<^item> constructing and initialising a \<open>ServerArchitecture\<close> for a language id and a
    loader throws in the constructor, or throws in \<open>init\<close> after the architecture was
    stored in \<open>arch\<close>, or succeeds.
\<close>

datatype exn = LowlevelError string | std_exception string | other_exception

datatype analysis_result = NoFunction | AnalysisThrows exn | Analysed string string

record ServerArchitecture =
  printAssembly :: "uint64 \<Rightarrow> exn + int4 \<times> string \<times> string"
  analysis :: "uint64 \<Rightarrow> analysis_result"

datatype build_result =
  CtorThrows exn | InitThrows ServerArchitecture exn | Built ServerArchitecture

type_synonym engine = "string \<Rightarrow> MemoryLoadImage \<Rightarrow> build_result"

section \<open>The service: state and handlers\<close>

record DecompilerServiceImpl =
  loader :: "MemoryLoadImage option"
  arch :: "ServerArchitecture option"
  base_address :: uint64
  initialized :: bool

text \<open>The members' initialisers: null pointers, \<open>base_address = 0\<close>, \<open>initialized = false\<close>.\<close>

definition new_service :: DecompilerServiceImpl where
  "new_service = \<lparr>loader = None, arch = None, base_address = 0, initialized = False\<rparr>"

definition cleanup :: "DecompilerServiceImpl \<Rightarrow> DecompilerServiceImpl" where
  "cleanup s = s\<lparr>arch := None, loader := None, initialized := False\<rparr>"

text \<open>The three \<open>catch\<close> clauses of \<open>LoadBinary\<close> and of \<open>DecompileFunction\<close>.\<close>

fun load_error_message :: "exn \<Rightarrow> string" where
  "load_error_message (LowlevelError explain) = explain"
| "load_error_message (std_exception what) = what"
| "load_error_message other_exception = ''Unknown exception during initialization''"

fun decompile_error_message :: "exn \<Rightarrow> string" where
  "decompile_error_message (LowlevelError explain) = explain"
| "decompile_error_message (std_exception what) = what"
| "decompile_error_message other_exception = ''Unknown exception during decompilation''"

definition load_failed :: "DecompilerServiceImpl \<Rightarrow> exn \<Rightarrow> DecompilerServiceImpl \<times> LoadBinaryResponse" where
  "load_failed s e =
     (cleanup s, empty_LoadBinaryResponse\<lparr>success := False, error_message := load_error_message e\<rparr>)"

text \<open>
  \<open>LoadBinary\<close>: \<open>cleanup()\<close>, store the base address, create the loader over the
  request's bytes, take the language id (the default when \<open>arch_spec\<close> is empty), construct
  and initialise the architecture, set \<open>initialized\<close>. The request's bytes are only copied
  into the loader (and their size logged); \<open>sla_path\<close> is not read.
\<close>

definition language_id :: "LoadBinaryRequest \<Rightarrow> string" where
  "language_id request =
     (if arch_spec request = [] then ''x86:LE:64:default'' else arch_spec request)"

definition new_loader :: "LoadBinaryRequest \<Rightarrow> MemoryLoadImage" where
  "new_loader request = \<lparr>data = binary_content request, base_addr = req_base_address request\<rparr>"

definition LoadBinary ::
  "engine \<Rightarrow> DecompilerServiceImpl \<Rightarrow> LoadBinaryRequest \<Rightarrow> DecompilerServiceImpl \<times> LoadBinaryResponse" where
  "LoadBinary eng s request =
     (let s1 = cleanup s;
          s2 = s1\<lparr>base_address := req_base_address request\<rparr>;
          s3 = s2\<lparr>loader := Some (new_loader request)\<rparr>
      in case eng (language_id request) (new_loader request) of
           CtorThrows e \<Rightarrow> load_failed s3 e
         | InitThrows a e \<Rightarrow> load_failed (s3\<lparr>arch := Some a\<rparr>) e
         | Built a \<Rightarrow>
             (s3\<lparr>arch := Some a, initialized := True\<rparr>,
              empty_LoadBinaryResponse\<lparr>success := True\<rparr>))"

text \<open>
  The linear sweep of \<open>DecompileFunction\<close>: the \<open>while\<close> loop over \<open>cur\<close> and
  \<open>instr_count\<close>, appending to the block's instruction list. It returns the list, the
  cursor, and the exception that left the loop, if one did. \<open>cur + length\<close> extends the
  \<open>int4\<close> with its sign and adds it to the offset (\<open>class Address\<close> is the library's;
  offsets are taken as 64 bits wide, as in the code space of the default language);
  \<open>set_length\<close> stores the same 32 bits in the \<open>uint32\<close> field.
  \<open>emit.mnem.find("RET") != string::npos\<close> holds when \<open>RET\<close> occurs somewhere in the
  mnemonic. The handler does not set \<open>raw_bytes\<close>.
\<close>

definition MAX_INSTRS :: nat where
  "MAX_INSTRS = 200"

definition pb_instr :: "uint64 \<Rightarrow> int4 \<Rightarrow> string \<Rightarrow> string \<Rightarrow> Instruction" where
  "pb_instr cur len mnem body =
     \<lparr>address = cur, ilength = len, mnemonic = mnem, operands = body, raw_bytes = []\<rparr>"

function sweep ::
  "(uint64 \<Rightarrow> exn + int4 \<times> string \<times> string) \<Rightarrow> uint64 \<Rightarrow> nat \<Rightarrow> Instruction list
    \<Rightarrow> Instruction list \<times> uint64 \<times> exn option" where
  "sweep emit cur instr_count instrs =
     (if instr_count < MAX_INSTRS then
        (case emit cur of
           Inl e \<Rightarrow> (instrs, cur, Some e)
         | Inr (len, mnem, body) \<Rightarrow>
             if sint len \<le> 0 then (instrs, cur, None)
             else if sublist ''RET'' mnem then (instrs @ [pb_instr cur len mnem body], cur, None)
             else sweep emit (cur + scast len) (instr_count + 1)
                    (instrs @ [pb_instr cur len mnem body]))
      else (instrs, cur, None))"
  by pat_completeness auto
termination
  by (relation "measure (\<lambda>(emit, cur, instr_count, instrs). MAX_INSTRS - instr_count)") auto

declare sweep.simps [simp del]

text \<open>
  \<open>DecompileFunction\<close>: the guard \<open>!initialized || !arch\<close>; the analysis of the function
  at the requested address, which sets the C text, the signature and \<open>success\<close>; one block
  with the requested address as start address and as identifier; the sweep; the end
  address. An exception from the analysis leaves the response with \<open>success = false\<close> and
  its message; one from the sweep also leaves what was already set, the block with the
  instructions appended so far and no end address.
\<close>

definition not_loaded :: DecompileResponse where
  "not_loaded = empty_DecompileResponse\<lparr>success := False, error_message := ''Binary not loaded''\<rparr>"

definition DecompileFunction :: "DecompilerServiceImpl \<Rightarrow> uint64 \<Rightarrow> DecompileResponse" where
  "DecompileFunction s addr =
     (case arch s of
        None \<Rightarrow> not_loaded
      | Some a \<Rightarrow>
          if \<not> initialized s then not_loaded
          else
            (case analysis a addr of
               NoFunction \<Rightarrow>
                 empty_DecompileResponse
                   \<lparr>success := False, error_message := ''Failed to create function''\<rparr>
             | AnalysisThrows e \<Rightarrow>
                 empty_DecompileResponse
                   \<lparr>success := False, error_message := decompile_error_message e\<rparr>
             | Analysed name code \<Rightarrow>
                 (let reply = empty_DecompileResponse
                        \<lparr>c_code := code, signature := name @ ''()'', success := True\<rparr>;
                      pb_block = \<lparr>block_id = addr, start_addr = addr, end_addr = 0,
                                  instructions = []\<rparr>
                  in case sweep (printAssembly a) addr 0 [] of
                       (instrs, cur, None) \<Rightarrow>
                         reply\<lparr>blocks := [pb_block\<lparr>instructions := instrs, end_addr := cur\<rparr>]\<rparr>
                     | (instrs, cur, Some e) \<Rightarrow>
                         reply\<lparr>blocks := [pb_block\<lparr>instructions := instrs\<rparr>],
                               success := False,
                               error_message := decompile_error_message e\<rparr>)))"

text \<open>\<open>DisassembleRange\<close> only returns \<open>Status::OK\<close>: the response stays as it was created.\<close>

definition DisassembleRange ::
  "DecompilerServiceImpl \<Rightarrow> uint64 \<Rightarrow> uint64 \<Rightarrow> DisassembleResponse" where
  "DisassembleRange s range_start range_end = empty_DisassembleResponse"

definition Ping :: "DecompilerServiceImpl \<Rightarrow> PingResponse" where
  "Ping s = \<lparr>alive = True\<rparr>"


section \<open>Notions the properties are stated with\<close>

text \<open>The sum of the byte lengths of a block's instructions, as a 64-bit offset.\<close>

definition block_bytes :: "Instruction list \<Rightarrow> uint64" where
  "block_bytes instrs = sum_list (map (\<lambda>i. ucast (ilength i)) instrs)"

text \<open>A run of instructions that starts at \<open>a\<close> and has no gap between neighbours.\<close>

fun contiguous :: "uint64 \<Rightarrow> Instruction list \<Rightarrow> bool" where
  "contiguous a [] = True"
| "contiguous a (i # instrs) = (address i = a \<and> contiguous (a + ucast (ilength i)) instrs)"

text \<open>
  What holds of the instruction list and the cursor each time the loop condition of the
  sweep is tested.
\<close>

definition sweep_inv :: "uint64 \<Rightarrow> Instruction list \<Rightarrow> uint64 \<Rightarrow> bool" where
  "sweep_inv a instrs cur =
     (contiguous a instrs \<and> cur = a + block_bytes instrs \<and>
      list_all (\<lambda>i. \<not> sublist ''RET'' (mnemonic i)) instrs \<and>
      list_all (\<lambda>i. 0 < sint (ilength i)) instrs)"

section \<open>A small engine to run the handlers on\<close>

text \<open>
  A decoder for five one-byte opcodes of x86, reading through the loader as the real one
  does: \<open>C3\<close> is \<open>RET\<close>, \<open>90\<close> is \<open>NOP\<close>, \<open>55\<close> is \<open>PUSH RBP\<close>, \<open>EB\<close> starts the two-byte
  short \<open>JMP\<close>, \<open>00\<close> starts the two-byte \<open>ADD\<close>; any other byte does not decode. The
  engine knows the default language only, and its analysis names every function \<open>func\<close>.
\<close>

definition toy_printAssembly :: "MemoryLoadImage \<Rightarrow> uint64 \<Rightarrow> exn + int4 \<times> string \<times> string" where
  "toy_printAssembly img cur =
     (let b = hd (loadFill img 1 cur) in
      if b = 0xC3 then Inr (1, ''RET'', [])
      else if b = 0x90 then Inr (1, ''NOP'', [])
      else if b = 0x55 then Inr (1, ''PUSH'', ''RBP'')
      else if b = 0xEB then Inr (2, ''JMP'', ''rel8'')
      else if b = 0x00 then Inr (2, ''ADD'', ''byte ptr [RAX], AL'')
      else Inl (LowlevelError ''Unable to resolve constructor''))"

definition toy_arch :: "MemoryLoadImage \<Rightarrow> ServerArchitecture" where
  "toy_arch img =
     \<lparr>printAssembly = toy_printAssembly img,
      analysis = (\<lambda>a. Analysed ''func'' ''void func(void) { return; }'')\<rparr>"

definition toy_engine :: engine where
  "toy_engine lang_id img =
     (if lang_id = ''x86:LE:64:default'' then Built (toy_arch img)
      else if lang_id = ''x86:LE:64:broken'' then InitThrows (toy_arch img) other_exception
      else CtorThrows (LowlevelError ''No sleigh specification''))"

definition load_request :: "uint1 list \<Rightarrow> string \<Rightarrow> LoadBinaryRequest" where
  "load_request bytes spec =
     \<lparr>binary_content = bytes, req_base_address = 0x1000, arch_spec = spec, sla_path = []\<rparr>"

definition toy_service :: "uint1 list \<Rightarrow> DecompilerServiceImpl" where
  "toy_service bytes = fst (LoadBinary toy_engine new_service (load_request bytes []))"


section \<open>Reading the memory images\<close>

lemma loadFill_length: "length (loadFill img sz a) = nat (sint sz)"
  by (simp add: loadFill_def Let_def)

text \<open>
  Where the end of the image, \<open>base_addr + data.size()\<close>, does not pass \<open>2^64\<close>, a read
  returns the image's byte at every address inside the image and zero elsewhere.
\<close>

lemma loadFill_in_range:
  assumes nov: "unat (base_addr img) + length (data img) < 2 ^ 64" and i: "i < nat (sint sz)"
  shows "loadFill img sz a ! i =
     (if unat (base_addr img) \<le> unat (a + of_nat i) \<and>
         unat (a + of_nat i) < unat (base_addr img) + length (data img)
      then data img ! (unat (a + of_nat i) - unat (base_addr img)) else 0)"
proof -
  have len: "length (data img) < 2 ^ 64" using nov by simp
  have m: "unat (base_addr img + of_nat (length (data img))) = unat (base_addr img) + length (data img)"
    using nov len by (simp add: unat_word_ariths unat_of_nat)
  show ?thesis using i
    by (simp add: loadFill_def Let_def word_le_nat_alt word_less_nat_alt m unat_sub)
qed

section \<open>The sweep, one iteration at a time\<close>

lemma sint_pos_uint:
  assumes "0 < sint (l::32 word)" shows "sint l = uint l"
proof -
  have "uint l = take_bit LENGTH(32) (sint l)" by (rule uint_sint)
  then have u: "uint l = take_bit 32 (sint l)" by simp
  have "sint l < 2 ^ (LENGTH(32) - 1)" by (rule sint_lt)
  then have "sint l < 2 ^ 32" by simp
  with assms have "take_bit 32 (sint l) = sint l" by (simp add: take_bit_int_eq_self)
  with u show ?thesis by simp
qed


lemma scast_pos:
  assumes "0 < sint (l::32 word)" shows "(scast l :: 64 word) = ucast l"
proof -
  have "(scast l :: 64 word) = word_of_int (sint l)" by (rule scast_eq)
  also have "\<dots> = word_of_int (uint l)" by (simp only: sint_pos_uint [OF assms])
  also have "\<dots> = ucast l" by (rule ucast_eq [symmetric])
  finally show ?thesis .
qed

lemma block_bytes_Nil: "block_bytes [] = 0"
  by (simp add: block_bytes_def)

lemma block_bytes_Cons: "block_bytes (x # xs) = ucast (ilength x) + block_bytes xs"
  by (simp add: block_bytes_def)

lemma block_bytes_snoc: "block_bytes (xs @ [x]) = block_bytes xs + ucast (ilength x)"
  by (simp add: block_bytes_def)

lemma contiguous_snoc:
  "contiguous a (xs @ [x]) = (contiguous a xs \<and> address x = a + block_bytes xs)"
proof (induction xs arbitrary: a)
  case Nil
  show ?case by (simp add: block_bytes_Nil)
next
  case (Cons y ys)
  show ?case by (simp only: append_Cons contiguous.simps Cons.IH block_bytes_Cons add.assoc conj_assoc)
qed

lemma sweep_stop:
  "\<not> instr_count < MAX_INSTRS \<Longrightarrow> sweep emit cur instr_count instrs = (instrs, cur, None)"
  by (subst sweep.simps) simp

lemma sweep_throw:
  "instr_count < MAX_INSTRS \<Longrightarrow> emit cur = Inl e \<Longrightarrow>
   sweep emit cur instr_count instrs = (instrs, cur, Some e)"
  by (subst sweep.simps) simp

lemma sweep_fail:
  "instr_count < MAX_INSTRS \<Longrightarrow> emit cur = Inr (len, mnem, body) \<Longrightarrow> sint len \<le> 0 \<Longrightarrow>
   sweep emit cur instr_count instrs = (instrs, cur, None)"
  by (subst sweep.simps) simp

lemma sweep_ret:
  "instr_count < MAX_INSTRS \<Longrightarrow> emit cur = Inr (len, mnem, body) \<Longrightarrow> 0 < sint len \<Longrightarrow>
   sublist ''RET'' mnem \<Longrightarrow>
   sweep emit cur instr_count instrs = (instrs @ [pb_instr cur len mnem body], cur, None)"
  by (subst sweep.simps) simp

lemma sweep_step:
  "instr_count < MAX_INSTRS \<Longrightarrow> emit cur = Inr (len, mnem, body) \<Longrightarrow> 0 < sint len \<Longrightarrow>
   \<not> sublist ''RET'' mnem \<Longrightarrow>
   sweep emit cur instr_count instrs =
   sweep emit (cur + scast len) (instr_count + 1) (instrs @ [pb_instr cur len mnem body])"
  by (subst sweep.simps) simp

lemma sweep_length:
  "instr_count \<le> MAX_INSTRS \<Longrightarrow>
   length (fst (sweep emit cur instr_count instrs)) \<le> length instrs + (MAX_INSTRS - instr_count)"
proof (induction emit cur instr_count instrs rule: sweep.induct)
  case (1 emit cur instr_count instrs)
  show ?case
  proof (cases "instr_count < MAX_INSTRS")
    case False
    then show ?thesis by (simp add: sweep_stop)
  next
    case True
    show ?thesis
    proof (cases "emit cur")
      case (Inl e)
      with True show ?thesis by (simp add: sweep_throw)
    next
      case (Inr r)
      obtain len mnem body where r: "r = (len, mnem, body)" by (cases r)
      note e = Inr [unfolded r]
      consider "sint len \<le> 0" | "0 < sint len" "sublist ''RET'' mnem"
        | "0 < sint len" "\<not> sublist ''RET'' mnem" by linarith
      then show ?thesis
      proof cases
        case 1
        with True e show ?thesis by (simp add: sweep_fail)
      next
        case 2
        with True e show ?thesis by (simp add: sweep_ret)
      next
        case 3
        have "length (fst (sweep emit (cur + scast len) (instr_count + 1)
                  (instrs @ [pb_instr cur len mnem body])))
           \<le> length (instrs @ [pb_instr cur len mnem body]) + (MAX_INSTRS - (instr_count + 1))"
          using "1.IH" [OF True Inr r [symmetric] refl] 3 True by simp
        with True e 3 show ?thesis by (simp add: sweep_step)
      qed
    qed
  qed
qed


lemma sweep_invariant:
  assumes init: "I instrs cur"
    and step: "\<And>is c len mnem body. I is c \<Longrightarrow> emit c = Inr (len, mnem, body) \<Longrightarrow>
                 0 < sint len \<Longrightarrow> \<not> sublist ''RET'' mnem \<Longrightarrow>
                 I (is @ [pb_instr c len mnem body]) (c + scast len)"
    and res: "sweep emit cur instr_count instrs = (r, c, t)"
  shows "I r c \<or>
         (\<exists>is len mnem body. r = is @ [pb_instr c len mnem body] \<and> I is c \<and>
            emit c = Inr (len, mnem, body) \<and> 0 < sint len \<and> sublist ''RET'' mnem \<and> t = None)"
  using step init res
proof (induction emit cur instr_count instrs rule: sweep.induct)
  case (1 emit cur instr_count instrs)
  note stp = "1.prems"(1) and inv = "1.prems"(2) and res = "1.prems"(3)
  show ?case
  proof (cases "instr_count < MAX_INSTRS")
    case False
    with res inv show ?thesis by (simp add: sweep_stop)
  next
    case True
    show ?thesis
    proof (cases "emit cur")
      case (Inl e)
      with True res inv show ?thesis by (simp add: sweep_throw)
    next
      case (Inr x)
      obtain len mnem body where x: "x = (len, mnem, body)" by (cases x)
      note e = Inr [unfolded x]
      consider "sint len \<le> 0" | "0 < sint len" "sublist ''RET'' mnem"
        | "0 < sint len" "\<not> sublist ''RET'' mnem" by linarith
      then show ?thesis
      proof cases
        case 1
        with True e res inv show ?thesis by (simp add: sweep_fail)
      next
        case 2
        from True e 2 res have "r = instrs @ [pb_instr cur len mnem body]" "c = cur" "t = None"
          by (auto simp: sweep_ret)
        with inv e 2 show ?thesis by blast
      next
        case 3
        have nle: "\<not> sint len \<le> 0" using 3 by simp
        have inv': "I (instrs @ [pb_instr cur len mnem body]) (cur + scast len)"
          using stp [OF inv e 3] .
        have res': "sweep emit (cur + scast len) (instr_count + 1)
                      (instrs @ [pb_instr cur len mnem body]) = (r, c, t)"
          using True e 3 res by (simp add: sweep_step)
        show ?thesis
          using "1.IH" [OF True Inr x [symmetric] refl nle 3(2) stp inv' res'] .
      qed
    qed
  qed
qed


lemma sweep_inv_init: "sweep_inv a [] a"
  by (simp add: sweep_inv_def block_bytes_Nil)

lemma sweep_inv_step:
  "sweep_inv a is c \<Longrightarrow> 0 < sint len \<Longrightarrow> \<not> sublist ''RET'' mnem \<Longrightarrow>
   sweep_inv a (is @ [pb_instr c len mnem body]) (c + scast len)"
  by (simp add: sweep_inv_def contiguous_snoc block_bytes_snoc pb_instr_def scast_pos)

lemma sweep_from_entry:
  assumes "sweep emit a 0 [] = (r, c, t)"
  shows "sweep_inv a r c \<or>
         (\<exists>is len mnem body. r = is @ [pb_instr c len mnem body] \<and> sweep_inv a is c \<and>
            emit c = Inr (len, mnem, body) \<and> 0 < sint len \<and> sublist ''RET'' mnem \<and> t = None)"
  by (rule sweep_invariant [where I = "sweep_inv a", OF sweep_inv_init _ assms])
     (rule sweep_inv_step)

lemma sweep_contiguous:
  assumes "sweep emit a 0 [] = (r, c, t)" shows "contiguous a r"
  using sweep_from_entry [OF assms]
  by (auto simp: sweep_inv_def contiguous_snoc pb_instr_def)

lemma sweep_RET_last:
  assumes "sweep emit a 0 [] = (r, c, t)" and "Suc i < length r"
  shows "\<not> sublist ''RET'' (mnemonic (r ! i))"
  using sweep_from_entry [OF assms(1)] assms(2)
  by (auto simp: sweep_inv_def list_all_length nth_append)

lemma sweep_end:
  assumes "sweep emit a 0 [] = (r, c, None)"
  shows "c = a + block_bytes (if r \<noteq> [] \<and> sublist ''RET'' (mnemonic (last r)) then butlast r else r)"
  using sweep_from_entry [OF assms]
proof (elim disjE exE conjE)
  assume inv: "sweep_inv a r c"
  then have "r \<noteq> [] \<Longrightarrow> \<not> sublist ''RET'' (mnemonic (last r))"
    by (simp add: sweep_inv_def list_all_length last_conv_nth)
  with inv show ?thesis by (auto simp: sweep_inv_def)
next
  fix "is" len mnem body
  assume "r = is @ [pb_instr c len mnem body]" "sweep_inv a is c" "sublist ''RET'' mnem"
  then show ?thesis by (simp add: sweep_inv_def pb_instr_def)
qed

lemma contiguous_nth:
  "contiguous a xs \<Longrightarrow> Suc i < length xs \<Longrightarrow>
   address (xs ! Suc i) = address (xs ! i) + ucast (ilength (xs ! i))"
proof (induction xs arbitrary: a i)
  case Nil
  then show ?case by simp
next
  case (Cons x xs)
  show ?case
  proof (cases i)
    case 0
    with Cons.prems show ?thesis by (cases xs) auto
  next
    case (Suc j)
    with Cons.prems Cons.IH [of "a + ucast (ilength x)" j] show ?thesis by simp
  qed
qed

lemma contiguous_hd: "contiguous a xs \<Longrightarrow> xs \<noteq> [] \<Longrightarrow> address (hd xs) = a"
  by (cases xs) auto

lemma DecompileFunction_success:
  assumes "success (DecompileFunction s addr)"
  shows "\<exists>a name code instrs cur.
           arch s = Some a \<and> initialized s \<and> analysis a addr = Analysed name code \<and>
           sweep (printAssembly a) addr 0 [] = (instrs, cur, None) \<and>
           DecompileFunction s addr =
             \<lparr>success = True, error_message = [], signature = name @ ''()'', c_code = code,
              blocks = [\<lparr>block_id = addr, start_addr = addr, end_addr = cur,
                         instructions = instrs\<rparr>]\<rparr>"
  using assms
  by (auto simp: DecompileFunction_def not_loaded_def empty_DecompileResponse_def
           split: option.splits if_splits analysis_result.splits prod.splits)

section \<open>The handlers on the small engine\<close>

lemma toy_service_eq:
  "toy_service bytes =
     \<lparr>loader = Some \<lparr>data = bytes, base_addr = 0x1000\<rparr>,
      arch = Some (toy_arch \<lparr>data = bytes, base_addr = 0x1000\<rparr>),
      base_address = 0x1000, initialized = True\<rparr>"
  by (simp add: toy_service_def LoadBinary_def toy_engine_def load_request_def language_id_def
        new_loader_def cleanup_def new_service_def empty_LoadBinaryResponse_def)

lemma toy_sweep_RET:
  "sweep (toy_printAssembly \<lparr>data = [0xC3], base_addr = 0x1000\<rparr>) 0x1000 0 [] =
     ([pb_instr 0x1000 1 ''RET'' []], 0x1000, None)"
  by (simp add: sweep.simps toy_printAssembly_def loadFill_def MAX_INSTRS_def)

lemma toy_sweep_JMP:
  "sweep (toy_printAssembly \<lparr>data = [0xEB, 0x00, 0x90, 0xC3], base_addr = 0x1000\<rparr>) 0x1000 0 [] =
     ([pb_instr 0x1000 2 ''JMP'' ''rel8'', pb_instr 0x1002 1 ''NOP'' [],
       pb_instr 0x1003 1 ''RET'' []], 0x1003, None)"
  by (simp add: sweep.simps toy_printAssembly_def loadFill_def MAX_INSTRS_def sublist_code(3))

lemma toy_decompile_RET:
  "DecompileFunction (toy_service [0xC3]) 0x1000 =
     \<lparr>success = True, error_message = [], signature = ''func()'',
      c_code = ''void func(void) { return; }'',
      blocks = [\<lparr>block_id = 0x1000, start_addr = 0x1000, end_addr = 0x1000,
                 instructions = [pb_instr 0x1000 1 ''RET'' []]\<rparr>]\<rparr>"
  by (simp add: DecompileFunction_def toy_service_eq toy_arch_def toy_sweep_RET
        empty_DecompileResponse_def)

lemma toy_decompile_JMP:
  "DecompileFunction (toy_service [0xEB, 0x00, 0x90, 0xC3]) 0x1000 =
     \<lparr>success = True, error_message = [], signature = ''func()'',
      c_code = ''void func(void) { return; }'',
      blocks = [\<lparr>block_id = 0x1000, start_addr = 0x1000, end_addr = 0x1003,
                 instructions = [pb_instr 0x1000 2 ''JMP'' ''rel8'', pb_instr 0x1002 1 ''NOP'' [],
                                 pb_instr 0x1003 1 ''RET'' []]\<rparr>]\<rparr>"
  by (simp add: DecompileFunction_def toy_service_eq toy_arch_def toy_sweep_JMP
        empty_DecompileResponse_def)

lemma toy_engine_default:
  "toy_engine (language_id (load_request bytes [])) (new_loader (load_request bytes [])) =
     Built (toy_arch \<lparr>data = bytes, base_addr = 0x1000\<rparr>)"
  by (simp add: toy_engine_def language_id_def load_request_def new_loader_def)

lemma toy_engine_broken:
  "toy_engine (language_id (load_request bytes ''x86:LE:64:broken''))
     (new_loader (load_request bytes ''x86:LE:64:broken'')) =
     InitThrows (toy_arch \<lparr>data = bytes, base_addr = 0x1000\<rparr>) other_exception"
  by (simp add: toy_engine_def language_id_def load_request_def new_loader_def)

lemma toy_engine_unknown:
  "toy_engine (language_id (load_request bytes ''z80'')) (new_loader (load_request bytes ''z80'')) =
     CtorThrows (LowlevelError ''No sleigh specification'')"
  by (simp add: toy_engine_def language_id_def load_request_def new_loader_def)

section \<open>Loading\<close>

lemma LoadBinary_Built:
  "eng (language_id req) (new_loader req) = Built a \<Longrightarrow>
   LoadBinary eng s req =
     (\<lparr>loader = Some (new_loader req), arch = Some a, base_address = req_base_address req,
       initialized = True\<rparr>,
      \<lparr>success = True, error_message = []\<rparr>)"
  by (simp add: LoadBinary_def cleanup_def empty_LoadBinaryResponse_def)

lemma LoadBinary_CtorThrows:
  "eng (language_id req) (new_loader req) = CtorThrows e \<Longrightarrow>
   LoadBinary eng s req =
     (\<lparr>loader = None, arch = None, base_address = req_base_address req, initialized = False\<rparr>,
      \<lparr>success = False, error_message = load_error_message e\<rparr>)"
  by (simp add: LoadBinary_def load_failed_def cleanup_def empty_LoadBinaryResponse_def)

lemma LoadBinary_InitThrows:
  "eng (language_id req) (new_loader req) = InitThrows a e \<Longrightarrow>
   LoadBinary eng s req =
     (\<lparr>loader = None, arch = None, base_address = req_base_address req, initialized = False\<rparr>,
      \<lparr>success = False, error_message = load_error_message e\<rparr>)"
  by (simp add: LoadBinary_def load_failed_def cleanup_def empty_LoadBinaryResponse_def)

lemma LoadBinary_success_iff:
  "success (snd (LoadBinary eng s req)) \<longleftrightarrow> (\<exists>a. eng (language_id req) (new_loader req) = Built a)"
  by (cases "eng (language_id req) (new_loader req)")
     (simp_all add: LoadBinary_Built LoadBinary_CtorThrows LoadBinary_InitThrows)

lemma LoadBinary_failed_unloaded:
  "\<not> success (snd (LoadBinary eng s req)) \<Longrightarrow>
   loader (fst (LoadBinary eng s req)) = None \<and> arch (fst (LoadBinary eng s req)) = None \<and>
   \<not> initialized (fst (LoadBinary eng s req))"
  by (cases "eng (language_id req) (new_loader req)")
     (simp_all add: LoadBinary_Built LoadBinary_CtorThrows LoadBinary_InitThrows)

lemma toy_load_z80:
  "LoadBinary toy_engine s (load_request bytes ''z80'') =
     (\<lparr>loader = None, arch = None, base_address = 0x1000, initialized = False\<rparr>,
      \<lparr>success = False, error_message = ''No sleigh specification''\<rparr>)"
  using LoadBinary_CtorThrows
          [of toy_engine "load_request bytes ''z80''" "LowlevelError ''No sleigh specification''" s]
        toy_engine_unknown [of bytes]
  by (simp add: load_request_def)

lemma DecompileFunction_not_loaded:
  "\<not> (initialized s \<and> arch s \<noteq> None) \<Longrightarrow>
   DecompileFunction s addr =
     \<lparr>success = False, error_message = ''Binary not loaded'', signature = [], c_code = [],
      blocks = []\<rparr>"
  by (auto simp: DecompileFunction_def not_loaded_def empty_DecompileResponse_def
           split: option.splits)

section \<open>The basic block of a decompiled function\<close>

text \<open>
  What the end address of a successful response is: the start address plus the lengths of
  the instructions before a final \<open>RET\<close>, whose own length is left out because the loop
  is left before the cursor moves on.
\<close>

lemma DecompileFunction_end_addr:
  assumes "success (DecompileFunction s addr)"
  shows "\<exists>b. blocks (DecompileFunction s addr) = [b] \<and>
           end_addr b = start_addr b +
             block_bytes (if instructions b \<noteq> [] \<and> sublist ''RET'' (mnemonic (last (instructions b)))
                          then butlast (instructions b) else instructions b)"
proof -
  from DecompileFunction_success [OF assms] obtain a :: ServerArchitecture and name code instrs cur where
    sw: "sweep (printAssembly a) addr 0 [] = (instrs, cur, None)" and
    r: "DecompileFunction s addr =
             \<lparr>success = True, error_message = [], signature = name @ ''()'', c_code = code,
              blocks = [\<lparr>block_id = addr, start_addr = addr, end_addr = cur,
                         instructions = instrs\<rparr>]\<rparr>"
    by blast
  from sweep_end [OF sw] r show ?thesis by simp
qed

text \<open>
  Claim C1 (the block's \<open>end_addr\<close> is \<open>start_addr\<close> plus the byte lengths of all its
  instructions, whichever condition ended the sweep) does not hold where a \<open>RET\<close> ends
  the sweep. On the one-byte image \<open>C3\<close> loaded at \<open>0x1000\<close>, \<open>DecompileFunction(0x1000)\<close>
  succeeds with a block that holds the one-byte \<open>RET\<close> and has \<open>end_addr = 0x1000\<close>, while
  the start address plus the instruction lengths is \<open>0x1001\<close>.
\<close>

theorem end_addr_stays_at_final_RET:
  "blocks (DecompileFunction (toy_service [0xC3]) 0x1000) =
     [\<lparr>block_id = 0x1000, start_addr = 0x1000, end_addr = 0x1000,
       instructions = [\<lparr>address = 0x1000, ilength = 1, mnemonic = ''RET'', operands = [],
                        raw_bytes = []\<rparr>]\<rparr>]
   \<and> success (DecompileFunction (toy_service [0xC3]) 0x1000)
   \<and> start_addr (hd (blocks (DecompileFunction (toy_service [0xC3]) 0x1000)))
       + block_bytes (instructions (hd (blocks (DecompileFunction (toy_service [0xC3]) 0x1000))))
       = 0x1001"
  by (simp add: toy_decompile_RET pb_instr_def block_bytes_def)

text \<open>
  A decoder that never fails and never yields a \<open>RET\<close> drives the loop to its cap: the
  sweep returns, with no exception and with exactly \<open>MAX_INSTRS\<close> instructions when it
  starts from none. The small decoder over the empty image is such a decoder: every address
  is unmapped, reads as zero and decodes as \<open>ADD\<close>.
\<close>

lemma sweep_runs_to_cap:
  assumes never: "\<And>c. \<exists>len mnem body. emit c = Inr (len, mnem, body) \<and> 0 < sint len \<and>
                     \<not> sublist ''RET'' mnem"
    and le: "instr_count \<le> MAX_INSTRS"
  shows "length (fst (sweep emit cur instr_count instrs)) = length instrs + (MAX_INSTRS - instr_count)
         \<and> snd (snd (sweep emit cur instr_count instrs)) = None"
  using never le
proof (induction emit cur instr_count instrs rule: sweep.induct)
  case (1 emit cur instr_count instrs)
  note never = "1.prems"(1) and le = "1.prems"(2)
  show ?case
  proof (cases "instr_count < MAX_INSTRS")
    case False
    with le show ?thesis by (simp add: sweep_stop)
  next
    case True
    from never [of cur] obtain len mnem body where
      e: "emit cur = Inr (len, mnem, body)" and pos: "0 < sint len"
      and nr: "\<not> sublist ''RET'' mnem" by blast
    have nle: "\<not> sint len \<le> 0" using pos by simp
    have le': "instr_count + 1 \<le> MAX_INSTRS" using True by simp
    from "1.IH" [OF True e refl refl nle nr never le'] True e pos nr
    show ?thesis by (simp add: sweep_step)
  qed
qed

lemma toy_unmapped_is_ADD:
  "toy_printAssembly \<lparr>data = [], base_addr = b\<rparr> c = Inr (2, ''ADD'', ''byte ptr [RAX], AL'')"
  by (auto simp: toy_printAssembly_def loadFill_def)

lemma toy_empty_image_fills_block:
  "length (fst (sweep (toy_printAssembly \<lparr>data = [], base_addr = 0x1000\<rparr>) 0x1000 0 [])) = 200"
proof -
  have "\<exists>len mnem body. toy_printAssembly \<lparr>data = [], base_addr = 0x1000\<rparr> c = Inr (len, mnem, body)
          \<and> 0 < sint len \<and> \<not> sublist ''RET'' mnem" for c
    by (simp add: toy_unmapped_is_ADD sublist_code(3))
  from sweep_runs_to_cap [OF this, where instr_count = 0 and cur = "0x1000" and instrs = "[]"] show ?thesis
    by (simp add: MAX_INSTRS_def)
qed

text \<open>
  Claim C2: the sweep loop terminates for every decoder, and the block has at most 200
  instructions. \<open>sweep\<close> is a total function (its termination is proved from
  \<open>MAX_INSTRS - instr_count\<close>, with no assumption on the decoder), and the list it
  returns, which is the instruction list of the response's block, is never longer than 200.
\<close>

theorem block_at_most_200_instructions:
  "length (fst (sweep emit cur 0 [])) \<le> 200 \<and>
   list_all (\<lambda>b. length (instructions b) \<le> 200) (blocks (DecompileFunction s addr))"
proof
  show len: "length (fst (sweep emit cur 0 [])) \<le> 200" for emit cur
    using sweep_length [of 0 emit cur "[]"] by (simp add: MAX_INSTRS_def)
  show "list_all (\<lambda>b. length (instructions b) \<le> 200) (blocks (DecompileFunction s addr))"
  proof (cases "arch s")
    case None
    then show ?thesis
      by (simp add: DecompileFunction_def not_loaded_def empty_DecompileResponse_def)
  next
    case (Some a)
    obtain instrs c t where sw: "sweep (printAssembly a) addr 0 [] = (instrs, c, t)"
      by (cases "sweep (printAssembly a) addr 0 []") auto
    with len [of "printAssembly a" addr] have "length instrs \<le> 200" by simp
    with Some sw show ?thesis
      by (cases t)
         (simp_all add: DecompileFunction_def not_loaded_def empty_DecompileResponse_def
            split: analysis_result.split)
  qed
qed

text \<open>
  Claim C7 as stated (a mnemonic of an unconditional return or an unconditional jump stops
  the sweep, and that instruction is the last of the block) fails for the jump: on the image
  \<open>EB 00 90 C3\<close> the block holds \<open>JMP\<close>, then \<open>NOP\<close>, then \<open>RET\<close>.
\<close>

theorem sweep_passes_JMP:
  "map mnemonic (instructions (hd (blocks
      (DecompileFunction (toy_service [0xEB, 0x00, 0x90, 0xC3]) 0x1000)))) =
     [''JMP'', ''NOP'', ''RET'']"
  by (simp add: toy_decompile_JMP pb_instr_def)

text \<open>
  Claim C7, amended: an instruction whose mnemonic contains \<open>RET\<close> is the last one of
  the block of the response; every other mnemonic, \<open>JMP\<close> too, lets the sweep go on.
\<close>

theorem RET_ends_block:
  assumes "blocks (DecompileFunction s addr) = [b]" and "i < length (instructions b)"
    and "sublist ''RET'' (mnemonic (instructions b ! i))"
  shows "Suc i = length (instructions b)"
proof -
  obtain a :: ServerArchitecture where a: "arch s = Some a"
    using assms(1)
    by (cases "arch s") (auto simp: DecompileFunction_def not_loaded_def empty_DecompileResponse_def)
  obtain instrs c t where sw: "sweep (printAssembly a) addr 0 [] = (instrs, c, t)"
    by (cases "sweep (printAssembly a) addr 0 []") auto
  have "instructions b = instrs"
    using assms(1) a sw
    by (cases t)
       (auto simp: DecompileFunction_def not_loaded_def empty_DecompileResponse_def
             split: analysis_result.splits if_splits)
  with sweep_RET_last [OF sw, of i] assms(2,3) show ?thesis
    by (cases "Suc i < length instrs") auto
qed

theorem RET_ends_block_witness:
  "blocks (DecompileFunction (toy_service [0xEB, 0x00, 0x90, 0xC3]) 0x1000) =
     [\<lparr>block_id = 0x1000, start_addr = 0x1000, end_addr = 0x1003,
       instructions = [pb_instr 0x1000 2 ''JMP'' ''rel8'', pb_instr 0x1002 1 ''NOP'' [],
                       pb_instr 0x1003 1 ''RET'' []]\<rparr>] \<and>
   sublist ''RET'' (mnemonic ([pb_instr 0x1000 2 ''JMP'' ''rel8'', pb_instr 0x1002 1 ''NOP'' [],
                       pb_instr 0x1003 1 ''RET'' []] ! 2)) \<and>
   Suc 2 = length [pb_instr 0x1000 2 ''JMP'' ''rel8'', pb_instr 0x1002 1 ''NOP'' [],
                       pb_instr 0x1003 1 ''RET'' []]"
proof -
  have b: "blocks (DecompileFunction (toy_service [0xEB, 0x00, 0x90, 0xC3]) 0x1000) =
     [\<lparr>block_id = 0x1000, start_addr = 0x1000, end_addr = 0x1003,
       instructions = [pb_instr 0x1000 2 ''JMP'' ''rel8'', pb_instr 0x1002 1 ''NOP'' [],
                       pb_instr 0x1003 1 ''RET'' []]\<rparr>]"
    by (simp add: toy_decompile_JMP)
  have r: "sublist ''RET'' (mnemonic ([pb_instr 0x1000 2 ''JMP'' ''rel8'', pb_instr 0x1002 1 ''NOP'' [],
                       pb_instr 0x1003 1 ''RET'' []] ! 2))"
    by (simp add: pb_instr_def)
  from RET_ends_block [OF b, of 2] r b show ?thesis by simp
qed

text \<open>
  Claim C8: in a successful response the entry block's identifier is its start address,
  which is the requested address.
\<close>

theorem entry_block_id_is_start_addr:
  assumes "success (DecompileFunction s addr)"
  shows "\<exists>b. blocks (DecompileFunction s addr) = [b] \<and> block_id b = start_addr b \<and>
             start_addr b = addr"
  using DecompileFunction_success [OF assms] by auto

theorem entry_block_id_is_start_addr_witness:
  "success (DecompileFunction (toy_service [0xC3]) 0x1000) \<and>
   (\<exists>b. blocks (DecompileFunction (toy_service [0xC3]) 0x1000) = [b] \<and>
        block_id b = start_addr b \<and> start_addr b = 0x1000)"
proof -
  have ok: "success (DecompileFunction (toy_service [0xC3]) 0x1000)"
    by (simp add: toy_decompile_RET)
  from entry_block_id_is_start_addr [OF ok] ok show ?thesis by simp
qed

text \<open>
  Claim C10: a successful response has exactly one block; it starts at the requested
  address, its first instruction (if there is one) is at the start address, and each later
  instruction is at the address of the one before plus that one's length, in 64-bit
  arithmetic.
\<close>

theorem single_contiguous_block:
  assumes "success (DecompileFunction s addr)"
  shows "\<exists>b. blocks (DecompileFunction s addr) = [b] \<and> start_addr b = addr \<and>
           (instructions b \<noteq> [] \<longrightarrow> address (hd (instructions b)) = start_addr b) \<and>
           (\<forall>i. Suc i < length (instructions b) \<longrightarrow>
                 address (instructions b ! Suc i) =
                 address (instructions b ! i) + ucast (ilength (instructions b ! i)))"
proof -
  from DecompileFunction_success [OF assms]
  obtain a :: ServerArchitecture and name code instrs cur where
    sw: "sweep (printAssembly a) addr 0 [] = (instrs, cur, None)" and
    r: "DecompileFunction s addr =
             \<lparr>success = True, error_message = [], signature = name @ ''()'', c_code = code,
              blocks = [\<lparr>block_id = addr, start_addr = addr, end_addr = cur,
                         instructions = instrs\<rparr>]\<rparr>"
    by blast
  have c: "contiguous addr instrs" by (rule sweep_contiguous [OF sw])
  show ?thesis
    using contiguous_hd [OF c] contiguous_nth [OF c] by (simp add: r)
qed

theorem single_contiguous_block_witness:
  "success (DecompileFunction (toy_service [0xEB, 0x00, 0x90, 0xC3]) 0x1000) \<and>
   (\<exists>b. blocks (DecompileFunction (toy_service [0xEB, 0x00, 0x90, 0xC3]) 0x1000) = [b] \<and>
        start_addr b = 0x1000 \<and> map address (instructions b) = [0x1000, 0x1002, 0x1003] \<and>
        address (instructions b ! Suc 0) = address (instructions b ! 0) + 2)"
proof -
  have ok: "success (DecompileFunction (toy_service [0xEB, 0x00, 0x90, 0xC3]) 0x1000)"
    by (simp add: toy_decompile_JMP)
  from single_contiguous_block [OF ok] show ?thesis
    by (simp add: toy_decompile_JMP pb_instr_def)
qed

section \<open>The memory images, read at their edges\<close>

text \<open>
  Claim C3 (a read returns the buffer's byte at every address inside
  \<open>[base, base + length)\<close> and zero elsewhere) does not hold of either image at every
  input. \<open>BufferLoadImage\<close> zeroes a whole read that starts below the base address, also
  its bytes inside the image: with the buffer \<open>90 C3\<close> at \<open>0x1000\<close>, reading two bytes at
  \<open>0xFFF\<close> gives \<open>00 00\<close>, where \<open>MemoryLoadImage\<close> gives \<open>00 90\<close>.
  \<open>MemoryLoadImage\<close> compares with \<open>base_addr + data.size()\<close>, which wraps around: with
  one byte \<open>90\<close> at the last address \<open>0xFFFFFFFFFFFFFFFF\<close> the bound is 0 and the byte
  reads as \<open>00\<close>, where \<open>BufferLoadImage\<close> gives \<open>90\<close>. (Away from that wrap-around
  \<open>MemoryLoadImage\<close> does what the claim says: \<open>loadFill_in_range\<close> and
  \<open>loadFill_length\<close>.)
\<close>

theorem loadFill_zero_inside_image:
  "BufferLoadImage_loadFill \<lparr>m_buffer = [0x90, 0xC3], m_base_addr = 0x1000\<rparr> 2 0xFFF = [0, 0]
   \<and> loadFill \<lparr>data = [0x90, 0xC3], base_addr = 0x1000\<rparr> 2 0xFFF = [0, 0x90]
   \<and> loadFill \<lparr>data = [0x90], base_addr = 0xFFFFFFFFFFFFFFFF\<rparr> 1 0xFFFFFFFFFFFFFFFF = [0]
   \<and> BufferLoadImage_loadFill \<lparr>m_buffer = [0x90], m_base_addr = 0xFFFFFFFFFFFFFFFF\<rparr> 1
         0xFFFFFFFFFFFFFFFF = [0x90]"
proof (intro conjI)
  show "BufferLoadImage_loadFill \<lparr>m_buffer = [0x90, 0xC3], m_base_addr = 0x1000\<rparr> 2 0xFFF = [0, 0]"
    by (simp add: BufferLoadImage_loadFill_def) (simp add: numeral_2_eq_2)
  show "loadFill \<lparr>data = [0x90, 0xC3], base_addr = 0x1000\<rparr> 2 0xFFF = [0, 0x90]"
    by (simp add: loadFill_def upt_rec)
  show "loadFill \<lparr>data = [0x90], base_addr = 0xFFFFFFFFFFFFFFFF\<rparr> 1 0xFFFFFFFFFFFFFFFF = [0]"
    by (simp add: loadFill_def)
  show "BufferLoadImage_loadFill \<lparr>m_buffer = [0x90], m_base_addr = 0xFFFFFFFFFFFFFFFF\<rparr> 1
         0xFFFFFFFFFFFFFFFF = [0x90]"
    by (simp add: BufferLoadImage_loadFill_def m_buffer_size_def)
qed

section \<open>The life cycle of the loaded binary\<close>

text \<open>
  Claim C4: a \<open>LoadBinary\<close> that fails (the construction or the initialisation of the
  architecture throws) leaves no loader and no architecture and \<open>initialized = false\<close>,
  and answers \<open>success = false\<close> with the message of the exception; one that succeeds
  leaves the new loader and the new architecture. Neither result depends on the state
  before the call. The call succeeds exactly when the engine builds an architecture.
\<close>

theorem LoadBinary_resets_or_replaces:
  "(eng (language_id req) (new_loader req) = CtorThrows e \<or>
    eng (language_id req) (new_loader req) = InitThrows a e \<longrightarrow>
      LoadBinary eng s req =
        (\<lparr>loader = None, arch = None, base_address = req_base_address req, initialized = False\<rparr>,
         \<lparr>success = False, error_message = load_error_message e\<rparr>)) \<and>
   (eng (language_id req) (new_loader req) = Built a \<longrightarrow>
      LoadBinary eng s req =
        (\<lparr>loader = Some \<lparr>data = binary_content req, base_addr = req_base_address req\<rparr>,
          arch = Some a, base_address = req_base_address req, initialized = True\<rparr>,
         \<lparr>success = True, error_message = []\<rparr>)) \<and>
   (success (snd (LoadBinary eng s req)) \<longleftrightarrow>
      (\<exists>a'. eng (language_id req) (new_loader req) = Built a'))"
proof (intro conjI impI)
  assume "eng (language_id req) (new_loader req) = CtorThrows e \<or>
          eng (language_id req) (new_loader req) = InitThrows a e"
  then show "LoadBinary eng s req =
        (\<lparr>loader = None, arch = None, base_address = req_base_address req, initialized = False\<rparr>,
         \<lparr>success = False, error_message = load_error_message e\<rparr>)"
    by (elim disjE) (simp_all only: LoadBinary_CtorThrows LoadBinary_InitThrows)
next
  assume "eng (language_id req) (new_loader req) = Built a"
  with LoadBinary_Built [of eng req a s] show "LoadBinary eng s req =
        (\<lparr>loader = Some \<lparr>data = binary_content req, base_addr = req_base_address req\<rparr>,
          arch = Some a, base_address = req_base_address req, initialized = True\<rparr>,
         \<lparr>success = True, error_message = []\<rparr>)"
    by (simp add: new_loader_def)
next
  show "success (snd (LoadBinary eng s req)) \<longleftrightarrow>
      (\<exists>a'. eng (language_id req) (new_loader req) = Built a')"
    by (rule LoadBinary_success_iff)
qed

theorem LoadBinary_resets_or_replaces_witness:
  "LoadBinary toy_engine (toy_service [0x90]) (load_request [0xC3] ''z80'') =
     (\<lparr>loader = None, arch = None, base_address = 0x1000, initialized = False\<rparr>,
      \<lparr>success = False, error_message = ''No sleigh specification''\<rparr>) \<and>
   LoadBinary toy_engine (toy_service [0x90]) (load_request [0xC3] ''x86:LE:64:broken'') =
     (\<lparr>loader = None, arch = None, base_address = 0x1000, initialized = False\<rparr>,
      \<lparr>success = False, error_message = ''Unknown exception during initialization''\<rparr>) \<and>
   LoadBinary toy_engine (toy_service [0x90]) (load_request [0xC3] []) =
     (\<lparr>loader = Some \<lparr>data = [0xC3], base_addr = 0x1000\<rparr>,
       arch = Some (toy_arch \<lparr>data = [0xC3], base_addr = 0x1000\<rparr>),
       base_address = 0x1000, initialized = True\<rparr>,
      \<lparr>success = True, error_message = []\<rparr>)"
proof (intro conjI)
  show "LoadBinary toy_engine (toy_service [0x90]) (load_request [0xC3] ''z80'') =
     (\<lparr>loader = None, arch = None, base_address = 0x1000, initialized = False\<rparr>,
      \<lparr>success = False, error_message = ''No sleigh specification''\<rparr>)"
    using LoadBinary_resets_or_replaces
      [of toy_engine "load_request [0xC3] ''z80''" "LowlevelError ''No sleigh specification''"
          "toy_arch \<lparr>data = [0xC3], base_addr = 0x1000\<rparr>" "toy_service [0x90]"]
    by (simp add: toy_engine_unknown) (simp add: load_request_def)
  show "LoadBinary toy_engine (toy_service [0x90]) (load_request [0xC3] ''x86:LE:64:broken'') =
     (\<lparr>loader = None, arch = None, base_address = 0x1000, initialized = False\<rparr>,
      \<lparr>success = False, error_message = ''Unknown exception during initialization''\<rparr>)"
    using LoadBinary_resets_or_replaces
      [of toy_engine "load_request [0xC3] ''x86:LE:64:broken''" other_exception
          "toy_arch \<lparr>data = [0xC3], base_addr = 0x1000\<rparr>" "toy_service [0x90]"]
    by (simp add: toy_engine_broken) (simp add: load_request_def)
  show "LoadBinary toy_engine (toy_service [0x90]) (load_request [0xC3] []) =
     (\<lparr>loader = Some \<lparr>data = [0xC3], base_addr = 0x1000\<rparr>,
       arch = Some (toy_arch \<lparr>data = [0xC3], base_addr = 0x1000\<rparr>),
       base_address = 0x1000, initialized = True\<rparr>,
      \<lparr>success = True, error_message = []\<rparr>)"
    using LoadBinary_resets_or_replaces
      [of toy_engine "load_request [0xC3] []" other_exception
          "toy_arch \<lparr>data = [0xC3], base_addr = 0x1000\<rparr>" "toy_service [0x90]"]
    by (simp add: toy_engine_default) (simp add: load_request_def)
qed

text \<open>
  Claim C5 as stated names the message \<open>binary not loaded\<close>; the handler answers
  \<open>Binary not loaded\<close>.
\<close>

theorem not_loaded_message_is_capitalised:
  "DecompileFunction new_service 0x1000 =
     \<lparr>success = False, error_message = ''Binary not loaded'', signature = [], c_code = [],
      blocks = []\<rparr> \<and>
   error_message (DecompileFunction new_service 0x1000) \<noteq> ''binary not loaded''"
  by (simp add: DecompileFunction_def new_service_def not_loaded_def empty_DecompileResponse_def)

text \<open>
  Claim C5, amended: \<open>DecompileFunction\<close> on a service that is not loaded (\<open>initialized\<close>
  is false or there is no architecture; so on a new service, and after a \<open>LoadBinary\<close>
  that failed) answers \<open>success = false\<close> with the message \<open>Binary not loaded\<close> and
  nothing else: no signature, no C text, no block.
\<close>

theorem DecompileFunction_requires_loaded:
  "(\<not> (initialized s \<and> arch s \<noteq> None) \<longrightarrow>
      DecompileFunction s addr =
        \<lparr>success = False, error_message = ''Binary not loaded'', signature = [], c_code = [],
         blocks = []\<rparr>) \<and>
   DecompileFunction new_service addr =
     \<lparr>success = False, error_message = ''Binary not loaded'', signature = [], c_code = [],
      blocks = []\<rparr> \<and>
   (\<not> success (snd (LoadBinary eng s req)) \<longrightarrow>
      DecompileFunction (fst (LoadBinary eng s req)) addr =
        \<lparr>success = False, error_message = ''Binary not loaded'', signature = [], c_code = [],
         blocks = []\<rparr>)"
proof (intro conjI impI)
  assume "\<not> (initialized s \<and> arch s \<noteq> None)"
  then show "DecompileFunction s addr =
        \<lparr>success = False, error_message = ''Binary not loaded'', signature = [], c_code = [],
         blocks = []\<rparr>"
    by (rule DecompileFunction_not_loaded)
next
  show "DecompileFunction new_service addr =
     \<lparr>success = False, error_message = ''Binary not loaded'', signature = [], c_code = [],
      blocks = []\<rparr>"
    by (rule DecompileFunction_not_loaded) (simp add: new_service_def)
next
  assume "\<not> success (snd (LoadBinary eng s req))"
  from LoadBinary_failed_unloaded [OF this]
  have "\<not> (initialized (fst (LoadBinary eng s req)) \<and> arch (fst (LoadBinary eng s req)) \<noteq> None)"
    by simp
  then show "DecompileFunction (fst (LoadBinary eng s req)) addr =
        \<lparr>success = False, error_message = ''Binary not loaded'', signature = [], c_code = [],
         blocks = []\<rparr>"
    by (rule DecompileFunction_not_loaded)
qed

theorem DecompileFunction_requires_loaded_witness:
  "\<not> success (snd (LoadBinary toy_engine (toy_service [0xC3]) (load_request [0xC3] ''z80''))) \<and>
   DecompileFunction
     (fst (LoadBinary toy_engine (toy_service [0xC3]) (load_request [0xC3] ''z80''))) 0x1000 =
     \<lparr>success = False, error_message = ''Binary not loaded'', signature = [], c_code = [],
      blocks = []\<rparr> \<and>
   \<not> (initialized (new_service\<lparr>initialized := True\<rparr>) \<and>
       arch (new_service\<lparr>initialized := True\<rparr>) \<noteq> None) \<and>
   DecompileFunction (new_service\<lparr>initialized := True\<rparr>) 0x1000 =
     \<lparr>success = False, error_message = ''Binary not loaded'', signature = [], c_code = [],
      blocks = []\<rparr>"
proof -
  have f: "\<not> success (snd (LoadBinary toy_engine (toy_service [0xC3]) (load_request [0xC3] ''z80'')))"
    by (simp add: toy_load_z80)
  have n: "\<not> (initialized (new_service\<lparr>initialized := True\<rparr>) \<and>
       arch (new_service\<lparr>initialized := True\<rparr>) \<noteq> None)"
    by (simp add: new_service_def)
  from DecompileFunction_requires_loaded
         [of "new_service\<lparr>initialized := True\<rparr>" "0x1000" toy_engine "load_request [0xC3] ''z80''"]
       DecompileFunction_requires_loaded
         [of "toy_service [0xC3]" "0x1000" toy_engine "load_request [0xC3] ''z80''"]
       f n
  show ?thesis by blast
qed

text \<open>
  Claim C6 as stated (a \<open>LoadBinary\<close> with no bytes fails) does not hold: the handler
  never looks at the bytes, and with an engine that builds the default architecture the
  empty binary is loaded.
\<close>

theorem LoadBinary_accepts_empty_content:
  "LoadBinary toy_engine new_service (load_request [] []) =
     (\<lparr>loader = Some \<lparr>data = [], base_addr = 0x1000\<rparr>,
       arch = Some (toy_arch \<lparr>data = [], base_addr = 0x1000\<rparr>),
       base_address = 0x1000, initialized = True\<rparr>,
      \<lparr>success = True, error_message = []\<rparr>)"
  using LoadBinary_Built
          [of toy_engine "load_request [] []" "toy_arch \<lparr>data = [], base_addr = 0x1000\<rparr>"
              new_service]
        toy_engine_default [of "[]"]
  by (simp add: load_request_def new_loader_def)

text \<open>
  Claim C6, amended: a \<open>LoadBinary\<close> with no bytes succeeds exactly when the engine
  builds the architecture over the empty image; when it fails, the response has
  \<open>success = false\<close> and the message of the exception, no session is left loaded; and
  \<open>Ping\<close> on the state it leaves answers \<open>alive = true\<close> either way.
\<close>

theorem LoadBinary_empty_content:
  assumes "binary_content req = []"
  shows "(success (snd (LoadBinary eng s req)) \<longleftrightarrow>
            (\<exists>a. eng (language_id req) \<lparr>data = [], base_addr = req_base_address req\<rparr> = Built a)) \<and>
         (\<not> success (snd (LoadBinary eng s req)) \<longrightarrow>
            loader (fst (LoadBinary eng s req)) = None \<and>
            arch (fst (LoadBinary eng s req)) = None \<and>
            \<not> initialized (fst (LoadBinary eng s req)) \<and>
            (\<exists>e. (eng (language_id req) \<lparr>data = [], base_addr = req_base_address req\<rparr> = CtorThrows e \<or>
                  (\<exists>a. eng (language_id req) \<lparr>data = [], base_addr = req_base_address req\<rparr>
                         = InitThrows a e)) \<and>
                 error_message (snd (LoadBinary eng s req)) = load_error_message e)) \<and>
         alive (Ping (fst (LoadBinary eng s req)))"
proof -
  have l: "new_loader req = \<lparr>data = [], base_addr = req_base_address req\<rparr>"
    using assms by (simp add: new_loader_def)
  show ?thesis
    by (cases "eng (language_id req) (new_loader req)")
       (simp_all add: LoadBinary_Built LoadBinary_CtorThrows LoadBinary_InitThrows Ping_def
          flip: l)
qed

theorem LoadBinary_empty_content_witness:
  "binary_content (load_request [] ''z80'') = [] \<and>
   \<not> success (snd (LoadBinary toy_engine (toy_service [0xC3]) (load_request [] ''z80''))) \<and>
   error_message (snd (LoadBinary toy_engine (toy_service [0xC3]) (load_request [] ''z80''))) =
     ''No sleigh specification'' \<and>
   loader (fst (LoadBinary toy_engine (toy_service [0xC3]) (load_request [] ''z80''))) = None \<and>
   arch (fst (LoadBinary toy_engine (toy_service [0xC3]) (load_request [] ''z80''))) = None \<and>
   \<not> initialized (fst (LoadBinary toy_engine (toy_service [0xC3]) (load_request [] ''z80''))) \<and>
   alive (Ping (fst (LoadBinary toy_engine (toy_service [0xC3]) (load_request [] ''z80''))))"
proof -
  have e: "binary_content (load_request [] ''z80'') = []"
    by (simp add: load_request_def)
  from LoadBinary_empty_content [OF e, of toy_engine "toy_service [0xC3]"] e
  show ?thesis by (simp add: toy_load_z80)
qed

text \<open>
  Claim C9 (\<open>DisassembleRange\<close> answers with a non-empty error message when no binary is
  loaded, and with the instructions of \<open>[start, end)\<close> when one is) does not hold: the
  handler returns the response as it was created, with no message and no instruction,
  whether a binary is loaded or not.
\<close>

theorem DisassembleRange_returns_empty_response:
  "DisassembleRange new_service 0x1000 0x1010 =
     \<lparr>success = False, error_message = [], dis_instructions = []\<rparr>
   \<and> DisassembleRange (toy_service [0x90, 0xC3]) 0x1000 0x1002 =
     \<lparr>success = False, error_message = [], dis_instructions = []\<rparr>"
  by (simp add: DisassembleRange_def empty_DisassembleResponse_def)

end
